theory Spec2Isabelle
  imports Complex_Main "HOL-Library.Word"
begin

unbundle bit_operations_syntax

section \<open>The VEML6070 driver (veml6070.py)\<close>

text \<open>
  The driver is a Python class over an I2C bus object and the \<open>utime\<close> module.
  Python integers are \<open>int\<close>, Python floats are modelled by the real numbers they
  denote, strings are \<open>string\<close>, dictionaries are association lists in source order,
  and every exception the source can raise is a value of \<open>error\<close>.
\<close>

subsection \<open>Exceptions\<close>

datatype error =
    OSError                \<comment> \<open>raised by the I2C object when a transaction fails\<close>
  | KeyError string        \<comment> \<open>dictionary lookup of a missing key\<close>
  | NameError string       \<comment> \<open>a global or local name with no binding
                               (CPython reports an unbound local as UnboundLocalError,
                               a subclass of NameError)\<close>
  | ValueError             \<comment> \<open>the explicit raise of \<open>uv_risk\<close>; a byte out of range(0, 256)\<close>
  | ZeroDivisionError
  | TypeError
  | IndexError

subsection \<open>Module constants (lines 15 to 23)\<close>

definition VEML6070_ADDR_ARA :: int where
  "VEML6070_ADDR_ARA = drop_bit 1 0x18"

definition VEML6070_ADDR_CMD :: int where
  "VEML6070_ADDR_CMD = drop_bit 1 0x70"

definition VEML6070_ADDR_LOW :: int where
  "VEML6070_ADDR_LOW = drop_bit 1 0x71"

definition VEML6070_ADDR_HIGH :: int where
  "VEML6070_ADDR_HIGH = drop_bit 1 0x73"

text \<open>Each value is the two-element list \<open>[code, multiplier]\<close> of the source.\<close>

definition VEML6070_INTEGRATION_TIME :: "(string \<times> int list) list" where
  "VEML6070_INTEGRATION_TIME =
     [(''VEML6070_HALF_T'', [0x00, 0]),
      (''VEML6070_1_T'', [0x01, 1]),
      (''VEML6070_2_T'', [0x02, 2]),
      (''VEML6070_4_T'', [0x03, 4])]"

text \<open>
  The names bound at module level when a method runs: the two imports, the five
  constants and the class. A value is an integer or some other object. No builtin is
  called \<open>ack\<close>, and the module binds no such name.
\<close>

datatype pyval = IntV int | ObjV

definition module_globals :: "(string \<times> pyval) list" where
  "module_globals =
     [(''const'', ObjV),
      (''utime'', ObjV),
      (''VEML6070_ADDR_ARA'', IntV VEML6070_ADDR_ARA),
      (''VEML6070_ADDR_CMD'', IntV VEML6070_ADDR_CMD),
      (''VEML6070_ADDR_LOW'', IntV VEML6070_ADDR_LOW),
      (''VEML6070_ADDR_HIGH'', IntV VEML6070_ADDR_HIGH),
      (''VEML6070_INTEGRATION_TIME'', ObjV),
      (''VEML6070'', ObjV)]"

definition load_global :: "string \<Rightarrow> error + pyval" where
  "load_global name =
     (case map_of module_globals name of
        None \<Rightarrow> Inl (NameError name)
      | Some v \<Rightarrow> Inr v)"

subsection \<open>Python primitives\<close>

definition dict_getitem :: "(string \<times> 'v) list \<Rightarrow> string \<Rightarrow> error + 'v" where
  "dict_getitem d k =
     (case map_of d k of None \<Rightarrow> Inl (KeyError k) | Some v \<Rightarrow> Inr v)"

definition list_getitem :: "'a list \<Rightarrow> nat \<Rightarrow> error + 'a" where
  "list_getitem xs i = (if i < length xs then Inr (xs ! i) else Inl IndexError)"

text \<open>\<open>b[i] = v\<close> on a bytearray: the value must be a byte.\<close>

definition bytearray_setitem :: "int list \<Rightarrow> nat \<Rightarrow> int \<Rightarrow> error + int list" where
  "bytearray_setitem b i v =
     (if \<not> i < length b then Inl IndexError
      else if v < 0 \<or> 256 \<le> v then Inl ValueError
      else Inr (b[i := v]))"

definition bytearray :: "nat \<Rightarrow> int list" where
  "bytearray n = replicate n 0"

text \<open>\<open>x << n\<close> where \<open>x\<close> came from a global name.\<close>

definition pyval_lshift :: "pyval \<Rightarrow> nat \<Rightarrow> error + int" where
  "pyval_lshift v n = (case v of IntV x \<Rightarrow> Inr (push_bit n x) | ObjV \<Rightarrow> Inl TypeError)"

text \<open>True division \<open>a / b\<close> and the truncation \<open>int(x)\<close> of a float.\<close>

definition truediv :: "real \<Rightarrow> real \<Rightarrow> error + real" where
  "truediv a b = (if b = 0 then Inl ZeroDivisionError else Inr (a / b))"

definition int_of_float :: "real \<Rightarrow> int" where
  "int_of_float x = (if 0 \<le> x then \<lfloor>x\<rfloor> else \<lceil>x\<rceil>)"

text \<open>\<open>x in range(lo, hi)\<close> for an integer \<open>x\<close>.\<close>

definition in_range :: "int \<Rightarrow> int \<Rightarrow> int \<Rightarrow> bool" where
  "in_range x lo hi = (lo \<le> x \<and> x < hi)"

subsection \<open>The bus and the clock\<close>

text \<open>
  What the driver does to the outside is recorded in a trace. The bus answers its
  n-th transaction with \<open>bus n\<close>: \<open>Nak\<close> makes the I2C method raise OSError,
  \<open>Ack b\<close> lets it succeed, and \<open>b\<close> is the byte delivered when the transaction
  is a one-byte read.
\<close>

datatype reply = Ack "8 word" | Nak

datatype event =
    Writeto_mem int int "int list"   \<comment> \<open>device address, memory address, payload\<close>
  | Writeto int "int list"           \<comment> \<open>device address, payload\<close>
  | Readfrom_into int nat            \<comment> \<open>device address, number of bytes\<close>
  | Sleep real                       \<comment> \<open>seconds\<close>

record world =
  bus :: "nat \<Rightarrow> reply"
  ticks :: nat
  trace :: "event list"

definition issue :: "event \<Rightarrow> world \<Rightarrow> world" where
  "issue e w = w\<lparr>ticks := ticks w + 1, trace := trace w @ [e]\<rparr>"

definition writeto_mem :: "int \<Rightarrow> int \<Rightarrow> int list \<Rightarrow> world \<Rightarrow> (error + unit) \<times> world" where
  "writeto_mem addr memaddr b w =
     (case bus w (ticks w) of
        Nak \<Rightarrow> (Inl OSError, issue (Writeto_mem addr memaddr b) w)
      | Ack _ \<Rightarrow> (Inr (), issue (Writeto_mem addr memaddr b) w))"

definition writeto :: "int \<Rightarrow> int list \<Rightarrow> world \<Rightarrow> (error + unit) \<times> world" where
  "writeto addr b w =
     (case bus w (ticks w) of
        Nak \<Rightarrow> (Inl OSError, issue (Writeto addr b) w)
      | Ack _ \<Rightarrow> (Inr (), issue (Writeto addr b) w))"

text \<open>\<open>readfrom_into(addr, buf, 1)\<close> with a one-byte buffer: the new content of the buffer.\<close>

definition readfrom_into :: "int \<Rightarrow> int list \<Rightarrow> world \<Rightarrow> (error + int list) \<times> world" where
  "readfrom_into addr b w =
     (case bus w (ticks w) of
        Nak \<Rightarrow> (Inl OSError, issue (Readfrom_into addr (length b)) w)
      | Ack x \<Rightarrow> (Inr (replicate (length b) (uint x)), issue (Readfrom_into addr (length b)) w))"

definition sleep :: "real \<Rightarrow> world \<Rightarrow> (error + unit) \<times> world" where
  "sleep t w = (Inr (), w\<lparr>trace := trace w @ [Sleep t]\<rparr>)"

subsection \<open>The object and the sequencing of statements\<close>

record driver =
  ara_buf :: "int list"
  buf :: "int list"
  ack :: bool
  ack_thd :: int
  integration_time :: string
  rset :: string

type_synonym state = "driver \<times> world"

type_synonym 'a stmt = "state \<Rightarrow> (error + 'a) \<times> state"

definition ret :: "'a \<Rightarrow> 'a stmt" where
  "ret a s = (Inr a, s)"

definition raise :: "error \<Rightarrow> 'a stmt" where
  "raise e s = (Inl e, s)"

definition seq :: "'a stmt \<Rightarrow> ('a \<Rightarrow> 'b stmt) \<Rightarrow> 'b stmt" where
  "seq m f s = (case m s of (Inl e, s') \<Rightarrow> (Inl e, s') | (Inr a, s') \<Rightarrow> f a s')"

definition lift :: "error + 'a \<Rightarrow> 'a stmt" where
  "lift r s = (r, s)"

definition io :: "(world \<Rightarrow> (error + 'a) \<times> world) \<Rightarrow> 'a stmt" where
  "io m s = (case m (snd s) of (r, w') \<Rightarrow> (r, (fst s, w')))"

definition self :: "driver stmt" where
  "self s = (Inr (fst s), s)"

definition assign :: "(driver \<Rightarrow> driver) \<Rightarrow> unit stmt" where
  "assign f s = (Inr (), (f (fst s), snd s))"

text \<open>\<open>self.buf[0] = v\<close>\<close>

definition set_buf0 :: "int \<Rightarrow> unit stmt" where
  "set_buf0 v =
     seq self (\<lambda>d.
     seq (lift (bytearray_setitem (buf d) 0 v)) (\<lambda>b.
     assign (\<lambda>d. d\<lparr>buf := b\<rparr>)))"

text \<open>\<open>VEML6070_INTEGRATION_TIME[self.integration_time][i]\<close>\<close>

definition integration_entry :: "nat \<Rightarrow> int stmt" where
  "integration_entry i =
     seq self (\<lambda>d.
     seq (lift (dict_getitem VEML6070_INTEGRATION_TIME (integration_time d))) (\<lambda>e.
     lift (list_getitem e i)))"

subsection \<open>The methods\<close>

text \<open>
  \<open>__init__\<close> (lines 41 to 54). The object exists only when the constructor returns;
  when it raises, the world keeps what was done to it.
\<close>

definition init :: "bool \<Rightarrow> world \<Rightarrow> (error + driver) \<times> world" where
  "init ack0 w =
     (let d = \<lparr>ara_buf = bytearray 1, buf = bytearray 1, ack = ack0, ack_thd = 0x00,
               integration_time = ''VEML6070_1_T'', rset = ''RSET_270K''\<rparr>
      in case
           seq (io (writeto_mem VEML6070_ADDR_LOW VEML6070_ADDR_ARA (ara_buf d))) (\<lambda>_.
           seq (lift (dict_getitem VEML6070_INTEGRATION_TIME ''VEML6070_1_T'')) (\<lambda>e.
           seq (lift (list_getitem e 0)) (\<lambda>code.
           seq (set_buf0 (push_bit 5 (of_bool ack0) OR push_bit 2 code)) (\<lambda>_.
           seq self (\<lambda>d.
           io (writeto VEML6070_ADDR_CMD (buf d))))))) (d, w)
         of (Inl e, (d', w')) \<Rightarrow> (Inl e, w')
          | (Inr _, (d', w')) \<Rightarrow> (Inr d', w'))"

text \<open>\<open>set_integration_time\<close> (lines 56 to 63). Line 61 reads the name \<open>ack\<close>, not \<open>self.ack\<close>.\<close>

definition set_integration_time :: "string \<Rightarrow> bool stmt" where
  "set_integration_time it =
     (if map_of VEML6070_INTEGRATION_TIME it = None then ret False
      else
        seq (assign (\<lambda>d. d\<lparr>integration_time := it\<rparr>)) (\<lambda>_.
        seq (lift (load_global ''ack'')) (\<lambda>a.
        seq (lift (pyval_lshift a 5)) (\<lambda>hi.
        seq (integration_entry 0) (\<lambda>code.
        seq (set_buf0 (hi OR push_bit 2 code)) (\<lambda>_.
        seq self (\<lambda>d.
        seq (io (writeto VEML6070_ADDR_CMD (buf d))) (\<lambda>_.
        ret True))))))))"

text \<open>
  \<open>get_refresh_time\<close> (lines 65 to 73). The result is the real number that the
  product of the two literals denotes; the source computes it in floating point, so only
  the order and presence of the sleep, not its exact duration, is taken from this value.
\<close>

definition case_refresh_rset :: "(string \<times> real) list" where
  "case_refresh_rset =
     [(''RSET_240K'', 0.1),
      (''RSET_270K'', 0.1125),
      (''RSET_300K'', 0.125),
      (''RSET_600K'', 0.25)]"

definition get_refresh_time :: "real stmt" where
  "get_refresh_time =
     seq self (\<lambda>d.
     seq (lift (dict_getitem case_refresh_rset (rset d))) (\<lambda>base.
     seq (integration_entry 1) (\<lambda>mult.
     ret (base * of_int mult))))"

text \<open>\<open>shutdown\<close> (lines 132 to 141): the bare \<open>except\<close> turns a failed write into False.\<close>

definition shutdown :: "bool stmt" where
  "shutdown =
     seq (set_buf0 0x03) (\<lambda>_.
     seq self (\<lambda>d.
     (\<lambda>s. case io (writeto VEML6070_ADDR_CMD (buf d)) s of
             (Inl e, s') \<Rightarrow> (Inr False, s')
           | (Inr _, s') \<Rightarrow> (Inr True, s'))))"

text \<open>\<open>wake\<close> (lines 143 to 148).\<close>

definition wake :: "unit stmt" where
  "wake =
     seq self (\<lambda>d.
     seq (integration_entry 0) (\<lambda>code.
     seq (set_buf0 (push_bit 5 (of_bool (ack d)) OR push_bit 4 (ack_thd d)
                      OR push_bit 2 code OR 0x02)) (\<lambda>_.
     seq self (\<lambda>d.
     io (writeto VEML6070_ADDR_CMD (buf d))))))"

text \<open>\<open>read\<close> (lines 76 to 91).\<close>

definition read :: "int stmt" where
  "read =
     seq wake (\<lambda>_.
     seq get_refresh_time (\<lambda>t.
     seq (io (sleep t)) (\<lambda>_.
     seq (io (readfrom_into VEML6070_ADDR_LOW (bytearray 1))) (\<lambda>lsb.
     seq (io (readfrom_into VEML6070_ADDR_HIGH (bytearray 1))) (\<lambda>msb.
     (let read_buf = msb @ lsb;
          raw = push_bit 8 (read_buf ! 1) OR read_buf ! 0
      in seq shutdown (\<lambda>_.
         ret raw)))))))"

text \<open>
  \<open>uva_light_sensitivity\<close> (lines 93 to 99). The division raises exactly when the
  multiplier is zero, as in the source. The value returned otherwise is the exact real
  \<open>raw * (0.05625 / mult)\<close>, which the source's floating-point result only
  approximates (for raw 13 in mode 1T the source gives 0.7312500000000001, not 117/160):
  nothing below depends on that value.
\<close>

definition uva_light_sensitivity :: "real stmt" where
  "uva_light_sensitivity =
     seq read (\<lambda>raw.
     seq (integration_entry 1) (\<lambda>mult.
     seq (lift (truediv 0.05625 (of_int mult))) (\<lambda>q.
     ret (of_int raw * q))))"

text \<open>\<open>uv_risk\<close> (lines 101 to 129). The local \<open>risk\<close> is bound only by the loop;
  \<open>dv\<close> is the source's local \<open>div\<close>.\<close>

definition VEML6070_RISK_LEVEL :: "(string \<times> (string \<times> int list) list) list" where
  "VEML6070_RISK_LEVEL =
     [(''RSET_270K'',
        [(''LOW'', [0, 560]),
         (''MODERATE'', [561, 1120]),
         (''HIGH'', [1121, 1494]),
         (''VERY HIGH'', [1495, 2054]),
         (''EXTREME'', [2055, 9999])])]"

fun risk_loop :: "(string \<times> int list) list \<Rightarrow> int \<Rightarrow> string option \<Rightarrow> string option" where
  "risk_loop [] raw_adj risk = risk"
| "risk_loop ((levels, bounds) # rest) raw_adj risk =
     (if in_range raw_adj (bounds ! 0) (bounds ! 1) then Some levels
      else risk_loop rest raw_adj risk)"

definition uv_risk :: "string stmt" where
  "uv_risk =
     seq read (\<lambda>raw.
     seq (integration_entry 1) (\<lambda>dv.
     if dv = 0 then raise ValueError
     else
       seq (lift (truediv (of_int raw) (of_int dv))) (\<lambda>q.
       (let raw_adj = int_of_float q in
        seq self (\<lambda>d.
        seq (lift (dict_getitem VEML6070_RISK_LEVEL (rset d))) (\<lambda>table.
        (case risk_loop table raw_adj None of
           None \<Rightarrow> raise (NameError ''risk'')
         | Some risk \<Rightarrow> ret risk)))))))"

subsection \<open>Stored configuration, well-formed objects and concrete runs\<close>

text \<open>The four configuration attributes of the object.\<close>

definition config :: "driver \<Rightarrow> string \<times> bool \<times> int \<times> string" where
  "config d = (integration_time d, ack d, ack_thd d, rset d)"

text \<open>
  What the constructor establishes and every method keeps: a one-byte command buffer,
  a threshold bit, an integration time that is a key of the table, and the 270k resistor.
\<close>

definition valid_driver :: "driver \<Rightarrow> bool" where
  "valid_driver d =
     (length (buf d) = 1 \<and> (ack_thd d = 0 \<or> ack_thd d = 1) \<and>
      map_of VEML6070_INTEGRATION_TIME (integration_time d) \<noteq> None \<and>
      rset d = ''RSET_270K'')"

text \<open>What \<open>valid_driver\<close> depends on: the configuration and the size of the buffer.\<close>

definition kept :: "driver \<Rightarrow> (string \<times> bool \<times> int \<times> string) \<times> nat" where
  "kept d = (config d, length (buf d))"

text \<open>
  The object \<open>VEML6070(i2c)\<close> leaves behind, with its \<open>integration_time\<close>
  attribute holding \<open>it\<close>, and a bus that answers a finite script and then fails.
\<close>

definition example_driver :: "string \<Rightarrow> driver" where
  "example_driver it =
     \<lparr>ara_buf = [0], buf = [4], ack = False, ack_thd = 0,
      integration_time = it, rset = ''RSET_270K''\<rparr>"

definition example_world :: "reply list \<Rightarrow> world" where
  "example_world rs =
     \<lparr>bus = (\<lambda>n. if n < length rs then rs ! n else Nak), ticks = 0, trace = []\<rparr>"

text \<open>An event that reads from the device at address \<open>a\<close>.\<close>

definition is_read_from :: "int \<Rightarrow> event \<Rightarrow> bool" where
  "is_read_from a e = (case e of Readfrom_into a' n \<Rightarrow> a' = a | _ \<Rightarrow> False)"

section \<open>Properties\<close>

subsection \<open>Unfolding and basic steps\<close>

lemmas stmt_defs =
  ret_def raise_def seq_def lift_def io_def self_def assign_def set_buf0_def
  integration_entry_def

lemmas py_defs =
  dict_getitem_def list_getitem_def bytearray_setitem_def bytearray_def pyval_lshift_def
  truediv_def int_of_float_def in_range_def load_global_def

lemmas bus_defs = issue_def writeto_mem_def writeto_def readfrom_into_def sleep_def

lemmas addr_defs =
  VEML6070_ADDR_ARA_def VEML6070_ADDR_CMD_def VEML6070_ADDR_LOW_def VEML6070_ADDR_HIGH_def

lemmas example_defs = example_driver_def example_world_def

lemmas method_defs = read_def wake_def shutdown_def get_refresh_time_def

lemmas table_defs =
  VEML6070_INTEGRATION_TIME_def case_refresh_rset_def VEML6070_RISK_LEVEL_def

lemma integration_time_keys:
  "map_of VEML6070_INTEGRATION_TIME it \<noteq> None \<longleftrightarrow>
     it \<in> {''VEML6070_HALF_T'', ''VEML6070_1_T'', ''VEML6070_2_T'', ''VEML6070_4_T''}"
  by (simp add: VEML6070_INTEGRATION_TIME_def)

lemma integration_time_entry:
  assumes "map_of VEML6070_INTEGRATION_TIME it = Some e"
  shows "(it, e) \<in> {(''VEML6070_HALF_T'', [0, 0]), (''VEML6070_1_T'', [1, 1]),
                     (''VEML6070_2_T'', [2, 2]), (''VEML6070_4_T'', [3, 4])}"
  using assms by (auto simp add: VEML6070_INTEGRATION_TIME_def split: if_splits)

lemma command_byte_range:
  assumes "t = 0 \<or> t = 1" and "c = 0 \<or> c = 1 \<or> c = 2 \<or> c = (3::int)"
  shows "0 \<le> push_bit 5 (of_bool a) OR push_bit 4 t OR push_bit 2 c OR (2::int)"
    and "push_bit 5 (of_bool a) OR push_bit 4 t OR push_bit 2 c OR (2::int) < 256"
  using assms by (cases a; auto)+

lemma no_global_ack: "load_global ''ack'' = Inl (NameError ''ack'')"
  by (simp add: load_global_def module_globals_def)

subsection \<open>\<open>set_integration_time\<close>\<close>

text \<open>
  C2. With each of the four recognised modes, \<open>set_integration_time\<close> stores the new
  integration time and then raises NameError on the unbound name \<open>ack\<close> of line 61:
  it does not return True and it writes nothing to the bus.
\<close>

theorem set_integration_time_valid_mode:
  "set_integration_time ''VEML6070_HALF_T'' (d, w) =
     (Inl (NameError ''ack''), d\<lparr>integration_time := ''VEML6070_HALF_T''\<rparr>, w) \<and>
   set_integration_time ''VEML6070_1_T'' (d, w) =
     (Inl (NameError ''ack''), d\<lparr>integration_time := ''VEML6070_1_T''\<rparr>, w) \<and>
   set_integration_time ''VEML6070_2_T'' (d, w) =
     (Inl (NameError ''ack''), d\<lparr>integration_time := ''VEML6070_2_T''\<rparr>, w) \<and>
   set_integration_time ''VEML6070_4_T'' (d, w) =
     (Inl (NameError ''ack''), d\<lparr>integration_time := ''VEML6070_4_T''\<rparr>, w)"
  by (simp add: set_integration_time_def VEML6070_INTEGRATION_TIME_def no_global_ack
      seq_def assign_def lift_def)

text \<open>
  C7. For every string that is not one of the four keys of the integration-time table,
  \<open>set_integration_time\<close> returns False and leaves the object and the world as they
  were: no attribute changes and no bus transaction is issued.
\<close>

theorem set_integration_time_unrecognized:
  "it \<notin> {''VEML6070_HALF_T'', ''VEML6070_1_T'', ''VEML6070_2_T'', ''VEML6070_4_T''} \<Longrightarrow>
   set_integration_time it (d, w) = (Inr False, d, w)"
  by (simp add: set_integration_time_def VEML6070_INTEGRATION_TIME_def ret_def)

text \<open>The hypothesis of C7 holds for the name \<open>VEML6070_8_T\<close>.\<close>

theorem set_integration_time_unrecognized_witness:
  "''VEML6070_8_T'' \<notin> {''VEML6070_HALF_T'', ''VEML6070_1_T'', ''VEML6070_2_T'', ''VEML6070_4_T''} \<and>
   set_integration_time ''VEML6070_8_T'' (example_driver ''VEML6070_1_T'', example_world [Ack 0]) =
     (Inr False, example_driver ''VEML6070_1_T'', example_world [Ack 0])"
  using set_integration_time_unrecognized
    [of "''VEML6070_8_T''" "example_driver ''VEML6070_1_T''" "example_world [Ack 0]"]
  by simp

subsection \<open>What the methods leave alone\<close>

lemma seq_frame:
  assumes "\<And>s. kept (fst (snd (m s))) = kept (fst s)"
    and "\<And>a s. kept (fst (snd (f a s))) = kept (fst s)"
  shows "kept (fst (snd (seq m f s))) = kept (fst s)"
proof -
  obtain r s' where ms: "m s = (r, s')"
    by (cases "m s") auto
  then have s': "kept (fst s') = kept (fst s)"
    using assms(1) [of s] by simp
  show ?thesis
  proof (cases r)
    case (Inl e)
    with ms s' show ?thesis by (simp add: seq_def)
  next
    case (Inr a)
    with ms s' assms(2) [of a s'] show ?thesis by (simp add: seq_def)
  qed
qed

lemma ret_frame: "kept (fst (snd (ret a s))) = kept (fst s)"
  by (simp add: ret_def)

lemma raise_frame: "kept (fst (snd (raise e s))) = kept (fst s)"
  by (simp add: raise_def)

lemma lift_frame: "kept (fst (snd (lift r s))) = kept (fst s)"
  by (simp add: lift_def)

lemma self_frame: "kept (fst (snd (self s))) = kept (fst s)"
  by (simp add: self_def)

lemma io_frame: "kept (fst (snd (io m s))) = kept (fst s)"
  by (simp add: io_def split: prod.split)

lemma set_buf0_frame: "kept (fst (snd (set_buf0 v s))) = kept (fst s)"
  by (simp add: stmt_defs bytearray_setitem_def kept_def config_def)

lemma integration_entry_frame: "kept (fst (snd (integration_entry i s))) = kept (fst s)"
  unfolding integration_entry_def
  by (intro seq_frame self_frame lift_frame)

lemma wake_frame: "kept (fst (snd (wake s))) = kept (fst s)"
  unfolding wake_def
  by (intro seq_frame self_frame integration_entry_frame set_buf0_frame io_frame)

lemma shutdown_frame: "kept (fst (snd (shutdown s))) = kept (fst s)"
  unfolding shutdown_def
proof (intro seq_frame self_frame set_buf0_frame)
  fix a d s
  show "kept (fst (snd (case io (writeto VEML6070_ADDR_CMD (buf d)) s of
           (Inl e, s') \<Rightarrow> (Inr False, s')
         | (Inr _, s') \<Rightarrow> (Inr True, s')))) = kept (fst s)"
    using io_frame [of "writeto VEML6070_ADDR_CMD (buf d)" s]
    by (auto split: prod.split sum.split)
qed

lemma get_refresh_time_frame: "kept (fst (snd (get_refresh_time s))) = kept (fst s)"
  unfolding get_refresh_time_def
  by (intro seq_frame self_frame lift_frame integration_entry_frame ret_frame)

lemma read_frame: "kept (fst (snd (read s))) = kept (fst s)"
  unfolding read_def Let_def
  by (intro seq_frame wake_frame get_refresh_time_frame io_frame shutdown_frame ret_frame)

lemma uva_light_sensitivity_frame:
  "kept (fst (snd (uva_light_sensitivity s))) = kept (fst s)"
  unfolding uva_light_sensitivity_def
  by (intro seq_frame read_frame integration_entry_frame lift_frame ret_frame)

lemma uv_risk_tail_frame:
  "kept (fst (snd ((case r of None \<Rightarrow> raise (NameError ''risk'') | Some risk \<Rightarrow> ret risk) s)))
     = kept (fst s)"
  by (cases r) (simp_all add: raise_frame ret_frame)

lemma uv_risk_frame: "kept (fst (snd (uv_risk s))) = kept (fst s)"
  unfolding uv_risk_def Let_def
proof (intro seq_frame read_frame integration_entry_frame)
  fix a dv s
  show "kept (fst (snd ((if dv = 0 then raise ValueError
       else seq (lift (truediv (real_of_int a) (real_of_int dv)))
         (\<lambda>q. seq self (\<lambda>d. seq (lift (dict_getitem VEML6070_RISK_LEVEL (rset d)))
           (\<lambda>table. case risk_loop table (int_of_float q) None of
               None \<Rightarrow> raise (NameError ''risk'') | Some risk \<Rightarrow> ret risk)))) s)))
     = kept (fst s)"
    by (cases "dv = 0")
      (simp_all add: raise_frame,
        intro seq_frame lift_frame self_frame uv_risk_tail_frame)
qed

lemma kept_config: "kept d' = kept d \<Longrightarrow> config d' = config d"
  by (simp add: kept_def)

lemma kept_valid: "kept d' = kept d \<Longrightarrow> valid_driver d' = valid_driver d"
  by (simp add: kept_def config_def valid_driver_def)

text \<open>
  C10. Whatever the object and the bus, and whether the call returns or raises,
  \<open>read\<close>, \<open>get_refresh_time\<close>, \<open>uva_light_sensitivity\<close>, \<open>uv_risk\<close>,
  \<open>wake\<close> and \<open>shutdown\<close> leave \<open>integration_time\<close>, \<open>ack\<close>,
  \<open>ack_thd\<close> and \<open>rset\<close> as they found them.
\<close>

theorem configuration_frame:
  "config (fst (snd (read s))) = config (fst s) \<and>
   config (fst (snd (get_refresh_time s))) = config (fst s) \<and>
   config (fst (snd (uva_light_sensitivity s))) = config (fst s) \<and>
   config (fst (snd (uv_risk s))) = config (fst s) \<and>
   config (fst (snd (wake s))) = config (fst s) \<and>
   config (fst (snd (shutdown s))) = config (fst s)"
  by (intro conjI kept_config read_frame get_refresh_time_frame uva_light_sensitivity_frame
      uv_risk_frame wake_frame shutdown_frame)

text \<open>Well-formedness is an invariant: the constructor establishes it, every method keeps it.\<close>

lemma init_result:
  "fst (init a w) =
     (case bus w (ticks w) of
        Nak \<Rightarrow> Inl OSError
      | Ack _ \<Rightarrow>
          (case bus w (ticks w + 1) of
             Nak \<Rightarrow> Inl OSError
           | Ack _ \<Rightarrow>
               Inr \<lparr>ara_buf = [0], buf = [push_bit 5 (of_bool a) OR push_bit 2 0x01], ack = a,
                    ack_thd = 0, integration_time = ''VEML6070_1_T'', rset = ''RSET_270K''\<rparr>))"
  by (cases a)
    (simp_all add: init_def stmt_defs py_defs bus_defs table_defs Let_def split: reply.split)

lemma init_valid:
  assumes "fst (init a w) = Inr d"
  shows "valid_driver d \<and> config d = (''VEML6070_1_T'', a, 0, ''RSET_270K'')"
  using assms unfolding init_result
  by (auto simp add: valid_driver_def config_def table_defs split: reply.splits)

lemma methods_keep_valid:
  assumes "valid_driver (fst s)"
  shows "valid_driver (fst (snd (read s)))"
    and "valid_driver (fst (snd (get_refresh_time s)))"
    and "valid_driver (fst (snd (uva_light_sensitivity s)))"
    and "valid_driver (fst (snd (uv_risk s)))"
    and "valid_driver (fst (snd (wake s)))"
    and "valid_driver (fst (snd (shutdown s)))"
  using assms
  by (simp_all add: kept_valid [OF read_frame] kept_valid [OF get_refresh_time_frame]
      kept_valid [OF uva_light_sensitivity_frame] kept_valid [OF uv_risk_frame]
      kept_valid [OF wake_frame] kept_valid [OF shutdown_frame])

lemma set_integration_time_keeps_valid:
  assumes "valid_driver d"
  shows "valid_driver (fst (snd (set_integration_time it (d, w))))"
proof (cases "map_of VEML6070_INTEGRATION_TIME it = None")
  case True
  with assms show ?thesis by (simp add: set_integration_time_def ret_def)
next
  case False
  then have "set_integration_time it (d, w) =
      (Inl (NameError ''ack''), d\<lparr>integration_time := it\<rparr>, w)"
    by (auto simp add: set_integration_time_def no_global_ack seq_def assign_def lift_def)
  with False assms show ?thesis
    by (auto simp add: valid_driver_def)
qed

subsection \<open>The constructor\<close>

text \<open>
  What the constructor issues, for every value of the ack flag and on every bus: first
  the \<open>writeto_mem\<close> of line 52 and then, if that transaction is acknowledged, the
  write of the command byte \<open>ack << 5 | 0x01 << 2\<close> to the command address.
\<close>

lemma init_trace:
  "trace (snd (init a w)) = trace w @
     (case bus w (ticks w) of
        Nak \<Rightarrow> [Writeto_mem VEML6070_ADDR_LOW VEML6070_ADDR_ARA [0]]
      | Ack _ \<Rightarrow> [Writeto_mem VEML6070_ADDR_LOW VEML6070_ADDR_ARA [0],
                  Writeto VEML6070_ADDR_CMD [push_bit 5 (of_bool a) OR push_bit 2 0x01]])"
  by (cases a) (simp_all add: init_def stmt_defs py_defs bus_defs table_defs split: reply.split)

text \<open>
  C6. The constructor issues no read at the alert-response address. Line 15 builds
  \<open>VEML6070_ADDR_ARA\<close> as a bus address, like the three addresses after it, and
  line 44 allocates the one-byte \<open>ara_buf\<close>; line 52 then passes that address as the
  memory address of a \<open>writeto_mem\<close> to the device at \<open>VEML6070_ADDR_LOW\<close>,
  which is the device of the command register, with the zeroed buffer as payload. On a
  bus that acknowledges everything, with either value of the ack flag, the trace is two
  writes to address 0x38: the order of the two transactions and the command byte are
  as claimed, the first transaction is not a read and is not addressed to 0x0C.
\<close>

theorem init_alert_response_transaction:
  "trace (snd (init True (example_world [Ack 0, Ack 0]))) =
     [Writeto_mem 0x38 0x0C [0], Writeto 0x38 [0x24]] \<and>
   trace (snd (init False (example_world [Ack 0, Ack 0]))) =
     [Writeto_mem 0x38 0x0C [0], Writeto 0x38 [0x04]] \<and>
   \<not> is_read_from VEML6070_ADDR_ARA (hd (trace (snd (init True (example_world [Ack 0, Ack 0]))))) \<and>
   \<not> is_read_from VEML6070_ADDR_ARA (hd (trace (snd (init False (example_world [Ack 0, Ack 0]))))) \<and>
   VEML6070_ADDR_LOW = VEML6070_ADDR_CMD \<and> VEML6070_ADDR_ARA = 0x0C"
  by (simp add: init_def stmt_defs py_defs bus_defs table_defs addr_defs example_defs
      is_read_from_def)

subsection \<open>\<open>wake\<close>, \<open>shutdown\<close> and \<open>read\<close>\<close>

text \<open>
  C9. For every well-formed object, whose integration time has the entry
  \<open>[code, mult]\<close> in the table, \<open>wake\<close> issues exactly one write to the command
  address, of the byte \<open>ack << 5 | ack_thd << 4 | code << 2 | 0x02\<close>, and
  \<open>shutdown\<close> issues exactly one write to the command address, of the literal 0x03.
\<close>

theorem wake_shutdown_bytes:
  assumes "valid_driver d"
    and "map_of VEML6070_INTEGRATION_TIME (integration_time d) = Some [code, mult]"
  shows "trace (snd (snd (wake (d, w)))) = trace w @
           [Writeto VEML6070_ADDR_CMD
              [push_bit 5 (of_bool (ack d)) OR push_bit 4 (ack_thd d) OR push_bit 2 code OR 0x02]] \<and>
         trace (snd (snd (shutdown (d, w)))) = trace w @ [Writeto VEML6070_ADDR_CMD [0x03]]"
proof -
  from assms(1) have thd: "ack_thd d = 0 \<or> ack_thd d = 1" and len: "length (buf d) = 1"
    by (simp_all add: valid_driver_def)
  from integration_time_entry [OF assms(2)]
  have c: "code = 0 \<or> code = 1 \<or> code = 2 \<or> code = 3" by auto
  from len obtain x where x: "buf d = [x]"
    by (cases "buf d") simp_all
  have nr: "\<not> (push_bit 5 (of_bool (ack d)) OR push_bit 4 (ack_thd d) OR push_bit 2 code OR 2 < 0)"
    "\<not> (256 \<le> push_bit 5 (of_bool (ack d)) OR push_bit 4 (ack_thd d) OR push_bit 2 code OR 2)"
    using command_byte_range [OF thd c, of "ack d"] by simp_all
  have "trace (snd (snd (wake (d, w)))) = trace w @
           [Writeto VEML6070_ADDR_CMD
              [push_bit 5 (of_bool (ack d)) OR push_bit 4 (ack_thd d) OR push_bit 2 code OR 2]]"
    unfolding wake_def using nr
    by (simp add: stmt_defs bus_defs dict_getitem_def list_getitem_def bytearray_setitem_def
        assms(2) x split: reply.split)
  moreover have "trace (snd (snd (shutdown (d, w)))) = trace w @ [Writeto VEML6070_ADDR_CMD [0x03]]"
    unfolding shutdown_def
    by (simp add: stmt_defs bus_defs bytearray_setitem_def x split: reply.split)
  ultimately show ?thesis by simp
qed

text \<open>
  The hypotheses of C9 hold for the constructed object in mode 4T (code 3): \<open>wake\<close>
  writes 0x0E and \<open>shutdown\<close> writes 0x03 to address 0x38.
\<close>

theorem wake_shutdown_bytes_witness:
  "valid_driver (example_driver ''VEML6070_4_T'') \<and>
   trace (snd (snd (wake (example_driver ''VEML6070_4_T'', example_world [Ack 0])))) =
     [Writeto 0x38 [0x0E]] \<and>
   trace (snd (snd (shutdown (example_driver ''VEML6070_4_T'', example_world [Ack 0])))) =
     [Writeto 0x38 [0x03]]"
proof -
  have v: "valid_driver (example_driver ''VEML6070_4_T'')"
    by (simp add: valid_driver_def example_driver_def VEML6070_INTEGRATION_TIME_def)
  have m: "map_of VEML6070_INTEGRATION_TIME (integration_time (example_driver ''VEML6070_4_T''))
      = Some [3, 4]"
    by (simp add: example_driver_def VEML6070_INTEGRATION_TIME_def)
  from wake_shutdown_bytes [OF v m, of "example_world [Ack 0]"] v show ?thesis
    by (simp add: example_defs addr_defs)
qed

text \<open>
  Everything \<open>read\<close> issues, on any bus: the trace is cut after a refused wake
  write or a refused data read, and a refused shutdown write does not change it.
\<close>

lemma read_trace_general:
  assumes len: "length (buf d) = 1" and thd: "ack_thd d = 0 \<or> ack_thd d = 1"
    and mode: "map_of VEML6070_INTEGRATION_TIME (integration_time d) = Some [code, mult]"
    and rs: "rset d = ''RSET_270K''"
  shows "trace (snd (snd (read (d, w)))) = trace w @
     (case bus w (ticks w) of
        Nak \<Rightarrow> [Writeto VEML6070_ADDR_CMD
                 [push_bit 5 (of_bool (ack d)) OR push_bit 4 (ack_thd d) OR push_bit 2 code OR 2]]
      | Ack _ \<Rightarrow>
          [Writeto VEML6070_ADDR_CMD
             [push_bit 5 (of_bool (ack d)) OR push_bit 4 (ack_thd d) OR push_bit 2 code OR 2],
           Sleep (0.1125 * of_int mult),
           Readfrom_into VEML6070_ADDR_LOW 1] @
          (case bus w (ticks w + 1) of
             Nak \<Rightarrow> []
           | Ack _ \<Rightarrow>
               Readfrom_into VEML6070_ADDR_HIGH 1 #
               (case bus w (ticks w + 2) of
                  Nak \<Rightarrow> []
                | Ack _ \<Rightarrow> [Writeto VEML6070_ADDR_CMD [3]])))"
proof -
  from integration_time_entry [OF mode]
  have c: "code = 0 \<or> code = 1 \<or> code = 2 \<or> code = 3" by auto
  from len obtain x where x: "buf d = [x]"
    by (cases "buf d") simp_all
  have nr: "\<not> (push_bit 5 (of_bool (ack d)) OR push_bit 4 (ack_thd d) OR push_bit 2 code OR 2 < 0)"
    "\<not> (256 \<le> push_bit 5 (of_bool (ack d)) OR push_bit 4 (ack_thd d) OR push_bit 2 code OR 2)"
    using command_byte_range [OF thd c, of "ack d"] by simp_all
  show ?thesis
    unfolding method_defs
    using nr
    by (simp add: stmt_defs bus_defs dict_getitem_def list_getitem_def bytearray_setitem_def
        bytearray_def case_refresh_rset_def mode rs x Let_def numeral_2_eq_2
        split: reply.split)
qed

text \<open>
  C8, as the code has it. On a well-formed object, a call of \<open>read\<close> whose wake
  write and two data reads are acknowledged issues exactly: the wake write, the sleep of
  the refresh time, the read at the data-LSB address, the read at the data-MSB address
  and the shutdown write, in that order, whether or not the shutdown write is
  acknowledged.
\<close>

theorem read_trace:
  assumes "valid_driver d"
    and "map_of VEML6070_INTEGRATION_TIME (integration_time d) = Some [code, mult]"
    and "bus w (ticks w) = Ack a" and "bus w (ticks w + 1) = Ack lo"
    and "bus w (ticks w + 2) = Ack hi"
  shows "trace (snd (snd (read (d, w)))) = trace w @
     [Writeto VEML6070_ADDR_CMD
        [push_bit 5 (of_bool (ack d)) OR push_bit 4 (ack_thd d) OR push_bit 2 code OR 0x02],
      Sleep (0.1125 * of_int mult),
      Readfrom_into VEML6070_ADDR_LOW 1,
      Readfrom_into VEML6070_ADDR_HIGH 1,
      Writeto VEML6070_ADDR_CMD [0x03]]"
proof -
  from assms(1) have v: "length (buf d) = 1" "ack_thd d = 0 \<or> ack_thd d = 1"
    "rset d = ''RSET_270K''"
    by (simp_all add: valid_driver_def)
  from assms(3,4,5) show ?thesis
    by (simp add: read_trace_general [OF v(1) v(2) assms(2) v(3)])
qed

text \<open>
  The hypotheses of C8 hold for the constructed object in mode 2T on a bus that
  acknowledges the first three transactions and refuses the shutdown write.
\<close>

theorem read_trace_witness:
  "valid_driver (example_driver ''VEML6070_2_T'') \<and>
   trace (snd (snd (read (example_driver ''VEML6070_2_T'',
                          example_world [Ack 0, Ack 1, Ack 2, Nak])))) =
     [Writeto 0x38 [0x0A], Sleep 0.225, Readfrom_into 0x38 1, Readfrom_into 0x39 1,
      Writeto 0x38 [0x03]]"
proof -
  have v: "valid_driver (example_driver ''VEML6070_2_T'')"
    by (simp add: valid_driver_def example_driver_def VEML6070_INTEGRATION_TIME_def)
  have m: "map_of VEML6070_INTEGRATION_TIME (integration_time (example_driver ''VEML6070_2_T''))
      = Some [2, 2]"
    by (simp add: example_driver_def VEML6070_INTEGRATION_TIME_def)
  have b: "bus (example_world [Ack 0, Ack 1, Ack 2, Nak])
             (ticks (example_world [Ack 0, Ack 1, Ack 2, Nak])) = Ack 0"
    "bus (example_world [Ack 0, Ack 1, Ack 2, Nak])
             (ticks (example_world [Ack 0, Ack 1, Ack 2, Nak]) + 1) = Ack 1"
    "bus (example_world [Ack 0, Ack 1, Ack 2, Nak])
             (ticks (example_world [Ack 0, Ack 1, Ack 2, Nak]) + 2) = Ack 2"
    by (simp_all add: example_world_def)
  from read_trace [OF v m b] v show ?thesis
    by (simp add: example_defs addr_defs)
qed

text \<open>
  C8 as stated fails: when the bus refuses the wake write, \<open>read\<close> raises OSError
  and has issued the wake write only: no data read, no shutdown write.
\<close>

theorem read_wake_failure_counterexample:
  "fst (read (example_driver ''VEML6070_1_T'', example_world [Nak, Ack 1, Ack 2, Ack 0]))
     = Inl OSError \<and>
   trace (snd (snd (read (example_driver ''VEML6070_1_T'',
                          example_world [Nak, Ack 1, Ack 2, Ack 0])))) =
     [Writeto VEML6070_ADDR_CMD [0x06]]"
  by (simp add: read_def wake_def stmt_defs py_defs bus_defs example_defs
      VEML6070_INTEGRATION_TIME_def)

text \<open>The value \<open>read\<close> returns: the byte of the data-LSB address is the high byte.\<close>

lemma read_value:
  assumes "valid_driver d"
    and "bus w (ticks w) = Ack a" and "bus w (ticks w + 1) = Ack lo"
    and "bus w (ticks w + 2) = Ack hi"
  shows "fst (read (d, w)) = Inr (push_bit 8 (uint lo) OR uint hi)"
proof -
  from assms(1) have thd: "ack_thd d = 0 \<or> ack_thd d = 1" and len: "length (buf d) = 1"
    and rs: "rset d = ''RSET_270K''"
    and "map_of VEML6070_INTEGRATION_TIME (integration_time d) \<noteq> None"
    by (simp_all add: valid_driver_def)
  then obtain e where e: "map_of VEML6070_INTEGRATION_TIME (integration_time d) = Some e"
    by blast
  from integration_time_entry [OF e] obtain code mult where cm: "e = [code, mult]"
    and c: "code = 0 \<or> code = 1 \<or> code = 2 \<or> code = 3"
    by auto
  from len obtain x where x: "buf d = [x]"
    by (cases "buf d") simp_all
  have nr: "\<not> (push_bit 5 (of_bool (ack d)) OR push_bit 4 (ack_thd d) OR push_bit 2 code OR 2 < 0)"
    "\<not> (256 \<le> push_bit 5 (of_bool (ack d)) OR push_bit 4 (ack_thd d) OR push_bit 2 code OR 2)"
    using command_byte_range [OF thd c, of "ack d"] by simp_all
  show ?thesis
    unfolding method_defs using nr assms(2,3,4)
    by (simp add: stmt_defs bus_defs dict_getitem_def list_getitem_def bytearray_setitem_def
        bytearray_def case_refresh_rset_def e cm rs x Let_def numeral_2_eq_2
        split: reply.split)
qed

text \<open>
  C1. The bus delivers 0x34 at the data-LSB address and 0x12 at the data-MSB address.
  \<open>(MSB << 8) | LSB\<close> is 0x1234; \<open>read\<close> returns 0x3412, because line 87
  concatenates \<open>msb + lsb\<close> and line 88 shifts element 1, the LSB.
\<close>

theorem read_byte_order:
  "fst (read (example_driver ''VEML6070_1_T'', example_world [Ack 0, Ack 0x34, Ack 0x12, Ack 0]))
     = Inr 0x3412 \<and>
   push_bit 8 (uint (0x12 :: 8 word)) OR uint (0x34 :: 8 word) = (0x1234 :: int)"
  by (simp add: method_defs stmt_defs py_defs bus_defs example_defs table_defs)

subsection \<open>\<open>uv_risk\<close> and \<open>uva_light_sensitivity\<close>\<close>

text \<open>
  The loop over the 270k table: \<open>range(lo, hi)\<close> leaves out \<open>hi\<close>, so 560, 1120,
  1494, 2054 and everything from 9999 on match no level.
\<close>

lemma risk_loop_270K:
  "risk_loop [(''LOW'', [0, 560]), (''MODERATE'', [561, 1120]), (''HIGH'', [1121, 1494]),
              (''VERY HIGH'', [1495, 2054]), (''EXTREME'', [2055, 9999])] x None =
     (if 0 \<le> x \<and> x < 560 then Some ''LOW''
      else if 561 \<le> x \<and> x < 1120 then Some ''MODERATE''
      else if 1121 \<le> x \<and> x < 1494 then Some ''HIGH''
      else if 1495 \<le> x \<and> x < 2054 then Some ''VERY HIGH''
      else if 2055 \<le> x \<and> x < 9999 then Some ''EXTREME''
      else None)"
  by (simp add: in_range_def)

text \<open>
  C3. The examples of the claim, with the two data bytes that make \<open>read\<close> return
  the raw value. In mode 1T, raw 800 gives MODERATE and raw 2055 gives EXTREME; in mode
  2T, raw 2242 gives HIGH. In mode 1T, raw 2054 does not give VERY HIGH: it matches no
  range, and \<open>return risk\<close> raises on the unbound local.
\<close>

theorem uv_risk_examples:
  "fst (uv_risk (example_driver ''VEML6070_1_T'', example_world [Ack 0, Ack 0x03, Ack 0x20, Ack 0]))
     = Inr ''MODERATE'' \<and>
   fst (read (example_driver ''VEML6070_1_T'', example_world [Ack 0, Ack 0x08, Ack 0x06, Ack 0]))
     = Inr 2054 \<and>
   fst (uv_risk (example_driver ''VEML6070_1_T'', example_world [Ack 0, Ack 0x08, Ack 0x06, Ack 0]))
     = Inl (NameError ''risk'') \<and>
   fst (uv_risk (example_driver ''VEML6070_1_T'', example_world [Ack 0, Ack 0x08, Ack 0x07, Ack 0]))
     = Inr ''EXTREME'' \<and>
   fst (uv_risk (example_driver ''VEML6070_2_T'', example_world [Ack 0, Ack 0x08, Ack 0xC2, Ack 0]))
     = Inr ''HIGH''"
  by (simp add: uv_risk_def method_defs stmt_defs py_defs bus_defs example_defs table_defs)

text \<open>
  C4. In mode 1T with raw 10000, above the top of EXTREME, \<open>uv_risk\<close> neither
  returns EXTREME nor raises an error of its own: the loop ends without a match and
  \<open>return risk\<close> raises on the unbound local.
\<close>

theorem uv_risk_above_table:
  "fst (read (example_driver ''VEML6070_1_T'', example_world [Ack 0, Ack 0x27, Ack 0x10, Ack 0]))
     = Inr 10000 \<and>
   fst (uv_risk (example_driver ''VEML6070_1_T'', example_world [Ack 0, Ack 0x27, Ack 0x10, Ack 0]))
     = Inl (NameError ''risk'')"
  by (simp add: uv_risk_def method_defs stmt_defs py_defs bus_defs example_defs table_defs)

text \<open>
  C5. In mode HALF, whatever bytes the bus delivers, \<open>uv_risk\<close> raises the ValueError
  of its guard, and \<open>uva_light_sensitivity\<close>, which has no guard, raises
  ZeroDivisionError from \<open>0.05625 / 0\<close>: a different kind of error.
\<close>

theorem half_mode_errors:
  "fst (uv_risk (example_driver ''VEML6070_HALF_T'', example_world [Ack a, Ack lo, Ack hi, r]))
     = Inl ValueError \<and>
   fst (uva_light_sensitivity
          (example_driver ''VEML6070_HALF_T'', example_world [Ack a, Ack lo, Ack hi, r]))
     = Inl ZeroDivisionError"
  by (simp add: uv_risk_def uva_light_sensitivity_def method_defs stmt_defs py_defs bus_defs
      example_defs table_defs split: reply.split)

end
